theory Spec2Isabelle
  imports Main
begin

section \<open>The OAI-PMH collaborator as seen from \<open>fraser.py\<close>\<close>

text \<open>
  \<open>fraser.py\<close> holds one class, \<open>FRASER\<close>, whose four methods each make a single
  keyword-argument call on a \<open>sickle.Sickle\<close> object and return what that call returns.
  The library \<open>sickle\<close> is not part of the repository, so the behaviour of its verb
  methods is a parameter of the model: a function from the request and the state of the
  outside world (the remote repository, the network) to an outcome and a new state.
  The outcome is a sum: \<open>Inl\<close> an exception raised by the library, \<open>Inr\<close> the value it
  returns (a record, or a lazy iterator). Both types are left polymorphic, since the
  adapter never inspects either.
\<close>

datatype verb = ListRecords | ListSets | ListIdentifiers | GetRecord

text \<open>The Python values that travel as keyword arguments: \<open>None\<close>, a bool, a str.\<close>

datatype pyval = PyNone | PyBool bool | PyStr string

text \<open>Keyword arguments, in the order in which the call site writes them.\<close>

type_synonym kwargs = "(string \<times> pyval) list"

text \<open>The connection handle: the object \<open>Sickle(endpoint)\<close> returns.\<close>

record Sickle =
  endpoint :: string

text \<open>One verb call received by the collaborator: on which handle's endpoint, which
  method, with which keyword arguments.\<close>

record request =
  req_endpoint :: string
  req_verb :: verb
  req_kwargs :: kwargs

text \<open>The world: the calls the collaborator has received so far, oldest first (what a
  recording test double keeps), and its own state \<open>ext\<close>.\<close>

record 'w world =
  calls :: "request list"
  ext :: 'w

type_synonym ('e, 'r, 'w) collaborator = "request \<Rightarrow> 'w \<Rightarrow> ('e + 'r) \<times> 'w"

text \<open>A verb method called on a handle: the call is recorded, the collaborator decides
  the outcome and the next state of the outside world.\<close>

definition Sickle_verb ::
  "('e, 'r, 'w) collaborator \<Rightarrow> verb \<Rightarrow> Sickle \<Rightarrow> kwargs \<Rightarrow> 'w world \<Rightarrow> ('e + 'r) \<times> 'w world"
where
  "Sickle_verb serve v h kw w =
     (let rq = \<lparr>req_endpoint = endpoint h, req_verb = v, req_kwargs = kw\<rparr>;
          (res, x) = serve rq (ext w)
      in (res, \<lparr>calls = calls w @ [rq], ext = x\<rparr>))"

text \<open>Modelled from the spec: the constructor \<open>Sickle(endpoint)\<close> of the external library,
  which is not under \<open>src/\<close>. Section 6 of the specification describes the collaborator
  as "a connection object constructed from a base URL", and section 5 places every HTTP
  request in the four calls; so the constructor stores the URL, raises nothing and leaves
  the world as it is.\<close>

definition Sickle_init :: "string \<Rightarrow> 'w world \<Rightarrow> ('e + Sickle) \<times> 'w world" where
  "Sickle_init url w = (Inr \<lparr>endpoint = url\<rparr>, w)"


section \<open>The class \<open>FRASER\<close>\<close>

text \<open>An instance has one attribute, \<open>_sickle\<close>.\<close>

record FRASER =
  sickle :: Sickle

text \<open>\<open>__init__\<close>: a single assignment, \<open>self._sickle = Sickle("https://fraser.stlouisfed.org/oai")\<close>.
  An exception of the constructor call would leave \<open>__init__\<close> at once; the annotation
  \<open>-> NoReturn\<close> is not evaluated into any behaviour.\<close>

definition FRASER_init :: "'w world \<Rightarrow> ('e + FRASER) \<times> 'w world" where
  "FRASER_init w =
     (case Sickle_init ''https://fraser.stlouisfed.org/oai'' w of
        (Inl e, w') \<Rightarrow> (Inl e, w')
      | (Inr h, w') \<Rightarrow> (Inr \<lparr>sickle = h\<rparr>, w'))"

text \<open>An argument of type \<open>Optional[str]\<close> as a Python value.\<close>

definition py_optional_str :: "string option \<Rightarrow> pyval" where
  "py_optional_str s = (case s of None \<Rightarrow> PyNone | Some t \<Rightarrow> PyStr t)"

text \<open>The four methods. Each returns the outcome of the collaborator's call, the instance
  as the method leaves it, and the world. None of them assigns to an attribute of
  \<open>self\<close>, and none has a \<open>try\<close>.\<close>

definition list_records ::
  "('e, 'r, 'w) collaborator \<Rightarrow> FRASER \<Rightarrow> bool \<Rightarrow> string option \<Rightarrow> 'w world
     \<Rightarrow> ('e + 'r) \<times> FRASER \<times> 'w world"
where
  "list_records serve self ignore_deleted set' w =
     (let (res, w') = Sickle_verb serve ListRecords (sickle self)
                        [(''metadataPrefix'', PyStr ''mods''),
                         (''ignore_deleted'', PyBool ignore_deleted),
                         (''set'', py_optional_str set')] w
      in (res, self, w'))"

definition list_sets ::
  "('e, 'r, 'w) collaborator \<Rightarrow> FRASER \<Rightarrow> 'w world \<Rightarrow> ('e + 'r) \<times> FRASER \<times> 'w world"
where
  "list_sets serve self w =
     (let (res, w') = Sickle_verb serve ListSets (sickle self) [] w
      in (res, self, w'))"

definition list_identifiers ::
  "('e, 'r, 'w) collaborator \<Rightarrow> FRASER \<Rightarrow> bool \<Rightarrow> string option \<Rightarrow> 'w world
     \<Rightarrow> ('e + 'r) \<times> FRASER \<times> 'w world"
where
  "list_identifiers serve self ignore_deleted set' w =
     (let (res, w') = Sickle_verb serve ListIdentifiers (sickle self)
                        [(''metadataPrefix'', PyStr ''mods''),
                         (''ignore_deleted'', PyBool ignore_deleted),
                         (''set'', py_optional_str set')] w
      in (res, self, w'))"

definition get_record ::
  "('e, 'r, 'w) collaborator \<Rightarrow> FRASER \<Rightarrow> string \<Rightarrow> 'w world \<Rightarrow> ('e + 'r) \<times> FRASER \<times> 'w world"
where
  "get_record serve self identifier w =
     (let (res, w') = Sickle_verb serve GetRecord (sickle self)
                        [(''identifier'', PyStr identifier),
                         (''metadataPrefix'', PyStr ''mods'')] w
      in (res, self, w'))"



section \<open>Calls as a caller writes them\<close>

text \<open>
  \<open>list_records\<close> and \<open>list_identifiers\<close> declare \<open>ignore_deleted: bool = False\<close> and
  \<open>set: Optional[str] = None\<close>; \<open>list_sets\<close> takes nothing; \<open>get_record\<close> requires
  \<open>identifier\<close>. A call expression may leave out an argument that has a default:
  \<open>None\<close> below is an argument left out, \<open>Some v\<close> an argument passed with value \<open>v\<close>
  (so \<open>Some None\<close> for \<open>set\<close> is \<open>set=None\<close> written out).
\<close>

datatype invocation =
    Call_list_records "bool option" "string option option"
  | Call_list_sets
  | Call_list_identifiers "bool option" "string option option"
  | Call_get_record string

text \<open>Python's binding of a parameter that has a default value.\<close>

definition default_arg :: "'a \<Rightarrow> 'a option \<Rightarrow> 'a" where
  "default_arg d a = (case a of None \<Rightarrow> d | Some v \<Rightarrow> v)"

fun invoke ::
  "('e, 'r, 'w) collaborator \<Rightarrow> FRASER \<Rightarrow> invocation \<Rightarrow> 'w world \<Rightarrow> ('e + 'r) \<times> FRASER \<times> 'w world"
where
  "invoke serve self (Call_list_records ig st) w =
     list_records serve self (default_arg False ig) (default_arg None st) w"
| "invoke serve self Call_list_sets w = list_sets serve self w"
| "invoke serve self (Call_list_identifiers ig st) w =
     list_identifiers serve self (default_arg False ig) (default_arg None st) w"
| "invoke serve self (Call_get_record i) w = get_record serve self i w"

text \<open>A caller that makes one call after the other on the same instance, keeping each
  outcome (an exception is caught and the next call made).\<close>

fun run ::
  "('e, 'r, 'w) collaborator \<Rightarrow> invocation list \<Rightarrow> FRASER \<Rightarrow> 'w world
     \<Rightarrow> ('e + 'r) list \<times> FRASER \<times> 'w world"
where
  "run serve [] self w = ([], self, w)"
| "run serve (c # cs) self w =
     (let (res, self', w') = invoke serve self c w;
          (rs, self'', w'') = run serve cs self' w'
      in (res # rs, self'', w''))"

text \<open>The request that section 4.1 and section 6 of the specification document for each
  operation: the verb of the same name on the fixed handle, \<open>metadataPrefix = "mods"\<close> for
  the three record-bearing verbs, the caller's \<open>ignore_deleted\<close> and \<open>set\<close> (or their
  defaults) for the two list verbs, the caller's \<open>identifier\<close> for \<open>GetRecord\<close>, and
  nothing for \<open>ListSets\<close>. This definition follows the specification, not the source; the
  lemma \<open>invoke_forwards\<close> below compares the two.\<close>

fun documented_request :: "FRASER \<Rightarrow> invocation \<Rightarrow> request" where
  "documented_request self (Call_list_records ig st) =
     \<lparr>req_endpoint = endpoint (sickle self), req_verb = ListRecords,
      req_kwargs = [(''metadataPrefix'', PyStr ''mods''),
                    (''ignore_deleted'', PyBool (case ig of None \<Rightarrow> False | Some b \<Rightarrow> b)),
                    (''set'', (case st of None \<Rightarrow> PyNone | Some None \<Rightarrow> PyNone
                                | Some (Some s) \<Rightarrow> PyStr s))]\<rparr>"
| "documented_request self Call_list_sets =
     \<lparr>req_endpoint = endpoint (sickle self), req_verb = ListSets, req_kwargs = []\<rparr>"
| "documented_request self (Call_list_identifiers ig st) =
     \<lparr>req_endpoint = endpoint (sickle self), req_verb = ListIdentifiers,
      req_kwargs = [(''metadataPrefix'', PyStr ''mods''),
                    (''ignore_deleted'', PyBool (case ig of None \<Rightarrow> False | Some b \<Rightarrow> b)),
                    (''set'', (case st of None \<Rightarrow> PyNone | Some None \<Rightarrow> PyNone
                                | Some (Some s) \<Rightarrow> PyStr s))]\<rparr>"
| "documented_request self (Call_get_record i) =
     \<lparr>req_endpoint = endpoint (sickle self), req_verb = GetRecord,
      req_kwargs = [(''identifier'', PyStr i), (''metadataPrefix'', PyStr ''mods'')]\<rparr>"


section \<open>A test double of the collaborator\<close>

text \<open>Modelled from the spec: a stand-in for the verb methods of the external library, of
  the kind section 8 of the specification tests against ("a mocked collaborator
  response"). Its state is the content of a repository. \<open>GetRecord\<close> answers with the
  record that has the identifier asked for and raises the not-found error of section 7
  ("id does not exist") when there is none; the list verbs answer with the records of the
  repository, without the deleted ones when \<open>ignore_deleted\<close> is true and only those of
  the set when \<open>set\<close> is a string; \<open>ListSets\<close> answers with all of them. It serves only
  to run the theorems of this file on concrete inputs.\<close>

datatype oai_error = IdDoesNotExist | BadArgument

record oai_record =
  rec_identifier :: string
  rec_deleted :: bool
  rec_setSpecs :: "string list"

datatype oai_result = Single oai_record | Lazy "oai_record list"

definition keeps :: "kwargs \<Rightarrow> oai_record \<Rightarrow> bool" where
  "keeps kw r =
     ((if map_of kw ''ignore_deleted'' = Some (PyBool True) then \<not> rec_deleted r else True) \<and>
      (case map_of kw ''set'' of
         Some (PyStr s) \<Rightarrow> List.member (rec_setSpecs r) s
       | _ \<Rightarrow> True))"

definition mock_sickle :: "(oai_error, oai_result, oai_record list) collaborator" where
  "mock_sickle rq repo =
     (case req_verb rq of
        GetRecord \<Rightarrow>
          (case map_of (req_kwargs rq) ''identifier'' of
             Some (PyStr i) \<Rightarrow>
               (case find (\<lambda>r. rec_identifier r = i) repo of
                  Some r \<Rightarrow> (Inr (Single r), repo)
                | None \<Rightarrow> (Inl IdDoesNotExist, repo))
           | _ \<Rightarrow> (Inl BadArgument, repo))
      | ListSets \<Rightarrow> (Inr (Lazy repo), repo)
      | _ \<Rightarrow> (Inr (Lazy (filter (keeps (req_kwargs rq)) repo)), repo))"

definition title_176 :: oai_record where
  "title_176 =
     \<lparr>rec_identifier = ''oai:fraser.stlouisfed.org:title:176'', rec_deleted = False,
      rec_setSpecs = [''author:1'']\<rparr>"

definition title_9 :: oai_record where
  "title_9 =
     \<lparr>rec_identifier = ''oai:fraser.stlouisfed.org:title:9'', rec_deleted = True,
      rec_setSpecs = []\<rparr>"

definition fresh_world :: "oai_record list world" where
  "fresh_world = \<lparr>calls = [], ext = [title_176, title_9]\<rparr>"

definition fraser_client :: FRASER where
  "fraser_client = \<lparr>sickle = \<lparr>endpoint = ''https://fraser.stlouisfed.org/oai''\<rparr>\<rparr>"


text \<open>The identifier of the record a \<open>GetRecord\<close> answer carries.\<close>

definition result_identifier :: "oai_result \<Rightarrow> string" where
  "result_identifier res = (case res of Single r \<Rightarrow> rec_identifier r | Lazy rs \<Rightarrow> [])"


section \<open>What every call forwards\<close>

text \<open>The source and the documented request agree: a call made as the caller writes it
  reaches the collaborator once, as the documented request, and nothing else happens.\<close>

lemma Sickle_verb_unfold:
  "Sickle_verb serve v h kw w =
     (fst (serve \<lparr>req_endpoint = endpoint h, req_verb = v, req_kwargs = kw\<rparr> (ext w)),
      \<lparr>calls = calls w @ [\<lparr>req_endpoint = endpoint h, req_verb = v, req_kwargs = kw\<rparr>],
       ext = snd (serve \<lparr>req_endpoint = endpoint h, req_verb = v, req_kwargs = kw\<rparr> (ext w))\<rparr>)"
  by (simp add: Sickle_verb_def Let_def split_beta)

lemma invoke_forwards:
  "invoke serve self c w =
     (fst (serve (documented_request self c) (ext w)), self,
      \<lparr>calls = calls w @ [documented_request self c],
       ext = snd (serve (documented_request self c) (ext w))\<rparr>)"
  by (cases c)
     (simp_all add: list_records_def list_sets_def list_identifiers_def get_record_def
        Sickle_verb_unfold default_arg_def py_optional_str_def split: option.splits)

lemma run_forwards:
  "fst (snd (run serve cs self w)) = self \<and>
   calls (snd (snd (run serve cs self w))) = calls w @ map (documented_request self) cs"
proof (induction cs arbitrary: w)
  case Nil
  show ?case by simp
next
  case (Cons c cs)
  show ?case
    by (simp add: invoke_forwards split_beta Let_def Cons.IH)
qed

text \<open>The test double on the two identifiers used below.\<close>

lemma mock_get_176:
  "mock_sickle \<lparr>req_endpoint = ''https://fraser.stlouisfed.org/oai'', req_verb = GetRecord,
                 req_kwargs = [(''identifier'', PyStr ''oai:fraser.stlouisfed.org:title:176''),
                               (''metadataPrefix'', PyStr ''mods'')]\<rparr> [title_176, title_9]
     = (Inr (Single title_176), [title_176, title_9])"
  by (simp add: mock_sickle_def title_176_def title_9_def)

lemma mock_get_17:
  "mock_sickle \<lparr>req_endpoint = ''https://fraser.stlouisfed.org/oai'', req_verb = GetRecord,
                 req_kwargs = [(''identifier'', PyStr ''oai:fraser.stlouisfed.org:title:17''),
                               (''metadataPrefix'', PyStr ''mods'')]\<rparr> [title_176, title_9]
     = (Inl IdDoesNotExist, [title_176, title_9])"
  by (simp add: mock_sickle_def title_176_def title_9_def)

lemma init_fresh:
  "fst (FRASER_init fresh_world :: (oai_error + FRASER) \<times> oai_record list world) = Inr fraser_client"
  by (simp add: FRASER_init_def Sickle_init_def fraser_client_def)


section \<open>The four operations\<close>

text \<open>
  C1. A call \<open>list_records(ignore_deleted, set)\<close> adds exactly one call to those the
  collaborator has received: \<open>ListRecords\<close> on the instance's handle with
  \<open>metadataPrefix = "mods"\<close>, the caller's \<open>ignore_deleted\<close> and the caller's \<open>set\<close> (\<open>None\<close> as \<open>None\<close>, a string
  as that string). Its outcome is the outcome of that call, the world moves as the collaborator moves it,
  and the instance is untouched.
\<close>

theorem list_records_forwards:
  "list_records serve self ignore_deleted set' w =
     (fst (serve \<lparr>req_endpoint = endpoint (sickle self), req_verb = ListRecords,
                   req_kwargs = [(''metadataPrefix'', PyStr ''mods''),
                                 (''ignore_deleted'', PyBool ignore_deleted),
                                 (''set'', (case set' of None \<Rightarrow> PyNone | Some s \<Rightarrow> PyStr s))]\<rparr> (ext w)),
      self,
      \<lparr>calls = calls w @
                 [\<lparr>req_endpoint = endpoint (sickle self), req_verb = ListRecords,
                   req_kwargs = [(''metadataPrefix'', PyStr ''mods''),
                                 (''ignore_deleted'', PyBool ignore_deleted),
                                 (''set'', (case set' of None \<Rightarrow> PyNone | Some s \<Rightarrow> PyStr s))]\<rparr>],
       ext = snd (serve \<lparr>req_endpoint = endpoint (sickle self), req_verb = ListRecords,
                          req_kwargs = [(''metadataPrefix'', PyStr ''mods''),
                                        (''ignore_deleted'', PyBool ignore_deleted),
                                        (''set'', (case set' of None \<Rightarrow> PyNone | Some s \<Rightarrow> PyStr s))]\<rparr> (ext w))\<rparr>)"
  by (simp add: list_records_def Sickle_verb_unfold py_optional_str_def)

text \<open>
  C2. A call \<open>get_record(identifier)\<close> adds exactly one call to those the collaborator has
  received: \<open>GetRecord\<close> with that identifier and \<open>metadataPrefix = "mods"\<close>; its outcome
  is the outcome of that call. In particular, when the collaborator answers with a record
  that carries the identifier asked for, the record returned carries it too (whatever
  \<open>ident_of\<close> reads the identifier off the collaborator's record type).
\<close>

theorem get_record_forwards:
  "get_record serve self identifier w =
     (fst (serve \<lparr>req_endpoint = endpoint (sickle self), req_verb = GetRecord,
                   req_kwargs = [(''identifier'', PyStr identifier),
                                 (''metadataPrefix'', PyStr ''mods'')]\<rparr> (ext w)),
      self,
      \<lparr>calls = calls w @
                 [\<lparr>req_endpoint = endpoint (sickle self), req_verb = GetRecord,
                   req_kwargs = [(''identifier'', PyStr identifier),
                                 (''metadataPrefix'', PyStr ''mods'')]\<rparr>],
       ext = snd (serve \<lparr>req_endpoint = endpoint (sickle self), req_verb = GetRecord,
                          req_kwargs = [(''identifier'', PyStr identifier),
                                        (''metadataPrefix'', PyStr ''mods'')]\<rparr> (ext w))\<rparr>)
   \<and> (fst (serve \<lparr>req_endpoint = endpoint (sickle self), req_verb = GetRecord,
                   req_kwargs = [(''identifier'', PyStr identifier),
                                 (''metadataPrefix'', PyStr ''mods'')]\<rparr> (ext w)) = Inr r
        \<and> ident_of r = identifier
       \<longrightarrow> (\<exists>r'. fst (get_record serve self identifier w) = Inr r' \<and> ident_of r' = identifier))"
  by (simp add: get_record_def Sickle_verb_unfold)

theorem get_record_forwards_witness:
  "fst (mock_sickle \<lparr>req_endpoint = endpoint (sickle fraser_client), req_verb = GetRecord,
                     req_kwargs = [(''identifier'', PyStr ''oai:fraser.stlouisfed.org:title:176''),
                                   (''metadataPrefix'', PyStr ''mods'')]\<rparr> (ext fresh_world))
     = Inr (Single title_176)
   \<and> result_identifier (Single title_176) = ''oai:fraser.stlouisfed.org:title:176''
   \<and> (\<exists>r'. fst (get_record mock_sickle fraser_client ''oai:fraser.stlouisfed.org:title:176''
                   fresh_world) = Inr r'
          \<and> result_identifier r' = ''oai:fraser.stlouisfed.org:title:176'')"
proof -
  have served:
    "fst (mock_sickle \<lparr>req_endpoint = endpoint (sickle fraser_client), req_verb = GetRecord,
                       req_kwargs = [(''identifier'', PyStr ''oai:fraser.stlouisfed.org:title:176''),
                                     (''metadataPrefix'', PyStr ''mods'')]\<rparr> (ext fresh_world))
       = Inr (Single title_176)"
    by (simp add: fraser_client_def fresh_world_def mock_get_176)
  have ident: "result_identifier (Single title_176) = ''oai:fraser.stlouisfed.org:title:176''"
    by (simp add: result_identifier_def title_176_def)
  from served ident
    get_record_forwards [of mock_sickle fraser_client
      "''oai:fraser.stlouisfed.org:title:176''" fresh_world "Single title_176"
      result_identifier]
  show ?thesis by blast
qed

text \<open>
  C3. A call \<open>list_identifiers(ignore_deleted, set)\<close> adds exactly one call to those the
  collaborator has received: \<open>ListIdentifiers\<close> with \<open>metadataPrefix = "mods"\<close>, the
  caller's \<open>ignore_deleted\<close> and the caller's \<open>set\<close> (\<open>None\<close> as \<open>None\<close>, a string as that
  string); its outcome is the outcome of that call; and the keyword arguments are those \<open>list_records\<close> sends for the same arguments.
\<close>

theorem list_identifiers_forwards:
  "list_identifiers serve self ignore_deleted set' w =
     (fst (serve \<lparr>req_endpoint = endpoint (sickle self), req_verb = ListIdentifiers,
                   req_kwargs = [(''metadataPrefix'', PyStr ''mods''),
                                 (''ignore_deleted'', PyBool ignore_deleted),
                                 (''set'', (case set' of None \<Rightarrow> PyNone | Some s \<Rightarrow> PyStr s))]\<rparr> (ext w)),
      self,
      \<lparr>calls = calls w @
                 [\<lparr>req_endpoint = endpoint (sickle self), req_verb = ListIdentifiers,
                   req_kwargs = [(''metadataPrefix'', PyStr ''mods''),
                                 (''ignore_deleted'', PyBool ignore_deleted),
                                 (''set'', (case set' of None \<Rightarrow> PyNone | Some s \<Rightarrow> PyStr s))]\<rparr>],
       ext = snd (serve \<lparr>req_endpoint = endpoint (sickle self), req_verb = ListIdentifiers,
                          req_kwargs = [(''metadataPrefix'', PyStr ''mods''),
                                        (''ignore_deleted'', PyBool ignore_deleted),
                                        (''set'', (case set' of None \<Rightarrow> PyNone | Some s \<Rightarrow> PyStr s))]\<rparr> (ext w))\<rparr>)
   \<and> req_kwargs (last (calls (snd (snd (list_identifiers serve self ignore_deleted set' w)))))
       = req_kwargs (last (calls (snd (snd (list_records serve' self ignore_deleted set' w')))))"
  by (simp add: list_identifiers_def list_records_def Sickle_verb_unfold py_optional_str_def)

text \<open>
  C4. A call \<open>list_sets()\<close> adds exactly one call to those the collaborator has received:
  \<open>ListSets\<close> with no keyword argument at all (so no key, \<open>metadataPrefix\<close> included, is
  bound in it); its outcome is the outcome of that call.
\<close>

theorem list_sets_forwards:
  "list_sets serve self w =
     (fst (serve \<lparr>req_endpoint = endpoint (sickle self), req_verb = ListSets,
                   req_kwargs = []\<rparr> (ext w)),
      self,
      \<lparr>calls = calls w @
                 [\<lparr>req_endpoint = endpoint (sickle self), req_verb = ListSets,
                   req_kwargs = []\<rparr>],
       ext = snd (serve \<lparr>req_endpoint = endpoint (sickle self), req_verb = ListSets,
                          req_kwargs = []\<rparr> (ext w))\<rparr>)
   \<and> map_of (req_kwargs (last (calls (snd (snd (list_sets serve self w)))))) k = None"
  by (simp add: list_sets_def Sickle_verb_unfold)


section \<open>The endpoint\<close>

text \<open>
  C5. An instance that \<open>__init__\<close> has constructed holds a handle whose endpoint is
  \<open>https://fraser.stlouisfed.org/oai\<close>; each of the four operations, called on it, sends
  its one request to that endpoint; and so does every request of any sequence of calls on
  it.
\<close>

theorem requests_target_fixed_endpoint:
  "fst (FRASER_init w0) = Inr c \<longrightarrow>
     endpoint (sickle c) = ''https://fraser.stlouisfed.org/oai''
     \<and> calls (snd (snd (invoke serve c op w))) = calls w @ [documented_request c op]
     \<and> req_endpoint (documented_request c op) = ''https://fraser.stlouisfed.org/oai''
     \<and> list_all (\<lambda>rq. req_endpoint rq = ''https://fraser.stlouisfed.org/oai'')
          (drop (length (calls w)) (calls (snd (snd (run serve ops c w)))))"
proof
  assume init: "fst (FRASER_init w0) = Inr c"
  then have c: "c = \<lparr>sickle = \<lparr>endpoint = ''https://fraser.stlouisfed.org/oai''\<rparr>\<rparr>"
    by (simp add: FRASER_init_def Sickle_init_def)
  have url: "endpoint (sickle c) = ''https://fraser.stlouisfed.org/oai''"
    by (simp add: c)
  have one: "req_endpoint (documented_request c x) = endpoint (sickle c)" for x
    by (cases x) simp_all
  have log: "calls (snd (snd (invoke serve c op w))) = calls w @ [documented_request c op]"
    by (simp add: invoke_forwards)
  have many: "list_all (\<lambda>rq. req_endpoint rq = ''https://fraser.stlouisfed.org/oai'')
          (drop (length (calls w)) (calls (snd (snd (run serve ops c w)))))"
    using one url by (simp add: run_forwards list_all_iff)
  show "endpoint (sickle c) = ''https://fraser.stlouisfed.org/oai''
     \<and> calls (snd (snd (invoke serve c op w))) = calls w @ [documented_request c op]
     \<and> req_endpoint (documented_request c op) = ''https://fraser.stlouisfed.org/oai''
     \<and> list_all (\<lambda>rq. req_endpoint rq = ''https://fraser.stlouisfed.org/oai'')
          (drop (length (calls w)) (calls (snd (snd (run serve ops c w)))))"
    using url log one many by simp
qed

theorem requests_target_fixed_endpoint_witness:
  "fst (FRASER_init fresh_world :: (oai_error + FRASER) \<times> oai_record list world)
     = Inr fraser_client
   \<and> endpoint (sickle fraser_client) = ''https://fraser.stlouisfed.org/oai''
   \<and> calls (snd (snd (invoke mock_sickle fraser_client Call_list_sets fresh_world)))
       = calls fresh_world @ [documented_request fraser_client Call_list_sets]
   \<and> req_endpoint (documented_request fraser_client Call_list_sets)
       = ''https://fraser.stlouisfed.org/oai''
   \<and> list_all (\<lambda>rq. req_endpoint rq = ''https://fraser.stlouisfed.org/oai'')
        (drop (length (calls fresh_world))
           (calls (snd (snd (run mock_sickle
              [Call_list_records None None, Call_get_record ''oai:fraser.stlouisfed.org:title:9'']
              fraser_client fresh_world)))))"
  using init_fresh
    requests_target_fixed_endpoint [of fresh_world fraser_client mock_sickle Call_list_sets
      fresh_world
      "[Call_list_records None None, Call_get_record ''oai:fraser.stlouisfed.org:title:9'']",
      where ?'a = oai_error]
  by blast


section \<open>Errors\<close>

text \<open>
  C6. For each of the four operations, the call raises \<open>e\<close> exactly when the collaborator
  raises \<open>e\<close> on the forwarded request, and it raises at all exactly when the collaborator
  does. In particular, when the collaborator raises its not-found error on the
  \<open>GetRecord\<close> request for an identifier, \<open>get_record\<close> raises that same error.
\<close>

theorem errors_propagate_unchanged:
  "(fst (invoke serve self c w) = Inl e)
     = (fst (serve (documented_request self c) (ext w)) = Inl e)
   \<and> isl (fst (invoke serve self c w))
       = isl (fst (serve (documented_request self c) (ext w)))
   \<and> (fst (serve (documented_request self (Call_get_record i)) (ext w)) = Inl not_found
        \<longrightarrow> fst (get_record serve self i w) = Inl not_found)"
  by (simp add: invoke_forwards get_record_def Sickle_verb_unfold)

theorem errors_propagate_unchanged_witness:
  "fst (mock_sickle (documented_request fraser_client
          (Call_get_record ''oai:fraser.stlouisfed.org:title:17'')) (ext fresh_world))
     = Inl IdDoesNotExist
   \<and> fst (get_record mock_sickle fraser_client ''oai:fraser.stlouisfed.org:title:17'' fresh_world)
       = Inl IdDoesNotExist"
proof -
  have served:
    "fst (mock_sickle (documented_request fraser_client
            (Call_get_record ''oai:fraser.stlouisfed.org:title:17'')) (ext fresh_world))
       = Inl IdDoesNotExist"
    by (simp add: fraser_client_def fresh_world_def mock_get_17)
  from served
    errors_propagate_unchanged [of mock_sickle fraser_client _ fresh_world _
      "''oai:fraser.stlouisfed.org:title:17''" IdDoesNotExist]
  show ?thesis by blast
qed


section \<open>State and repetition\<close>

text \<open>
  C7. Each of the four operations leaves the instance as it found it, whatever the outcome
  of the collaborator's call; so does any sequence of calls, and a call made after such a
  sequence behaves as the same call on the instance as constructed.
\<close>

theorem client_state_unchanged:
  "fst (snd (list_records serve self ignore_deleted set' w)) = self
   \<and> fst (snd (list_sets serve self w)) = self
   \<and> fst (snd (list_identifiers serve self ignore_deleted set' w)) = self
   \<and> fst (snd (get_record serve self identifier w)) = self
   \<and> fst (snd (run serve cs self w)) = self
   \<and> invoke serve (fst (snd (run serve cs self w))) c w' = invoke serve self c w'"
  by (simp add: list_records_def list_sets_def list_identifiers_def get_record_def
        split_beta run_forwards)

text \<open>
  C8. Two calls with the same arguments, one after the other, reach the collaborator as two
  requests: the second is served by the collaborator in the state the first left, not
  from a stored answer. Whenever the collaborator gives the same response to both, the two
  outcomes are equal.
\<close>

theorem repeated_call_not_cached:
  "run serve [c, c] self w =
     ([fst (serve (documented_request self c) (ext w)),
       fst (serve (documented_request self c)
              (snd (serve (documented_request self c) (ext w))))],
      self,
      \<lparr>calls = calls w @ [documented_request self c, documented_request self c],
       ext = snd (serve (documented_request self c)
                    (snd (serve (documented_request self c) (ext w))))\<rparr>)
   \<and> (fst (serve (documented_request self c) (ext w))
         = fst (serve (documented_request self c)
                  (snd (serve (documented_request self c) (ext w))))
        \<longrightarrow> fst (invoke serve (fst (snd (invoke serve self c w))) c
                    (snd (snd (invoke serve self c w))))
             = fst (invoke serve self c w))"
  by (simp add: invoke_forwards)

theorem repeated_call_not_cached_witness:
  "fst (mock_sickle (documented_request fraser_client
          (Call_get_record ''oai:fraser.stlouisfed.org:title:176'')) (ext fresh_world))
     = fst (mock_sickle (documented_request fraser_client
              (Call_get_record ''oai:fraser.stlouisfed.org:title:176''))
            (snd (mock_sickle (documented_request fraser_client
              (Call_get_record ''oai:fraser.stlouisfed.org:title:176'')) (ext fresh_world))))
   \<and> fst (invoke mock_sickle
            (fst (snd (invoke mock_sickle fraser_client
               (Call_get_record ''oai:fraser.stlouisfed.org:title:176'') fresh_world)))
            (Call_get_record ''oai:fraser.stlouisfed.org:title:176'')
            (snd (snd (invoke mock_sickle fraser_client
               (Call_get_record ''oai:fraser.stlouisfed.org:title:176'') fresh_world))))
       = fst (invoke mock_sickle fraser_client
               (Call_get_record ''oai:fraser.stlouisfed.org:title:176'') fresh_world)
   \<and> calls (snd (snd (run mock_sickle
        [Call_get_record ''oai:fraser.stlouisfed.org:title:176'',
         Call_get_record ''oai:fraser.stlouisfed.org:title:176''] fraser_client fresh_world)))
       = [documented_request fraser_client
            (Call_get_record ''oai:fraser.stlouisfed.org:title:176''),
          documented_request fraser_client
            (Call_get_record ''oai:fraser.stlouisfed.org:title:176'')]"
proof -
  have same:
    "fst (mock_sickle (documented_request fraser_client
            (Call_get_record ''oai:fraser.stlouisfed.org:title:176'')) (ext fresh_world))
       = fst (mock_sickle (documented_request fraser_client
                (Call_get_record ''oai:fraser.stlouisfed.org:title:176''))
              (snd (mock_sickle (documented_request fraser_client
                (Call_get_record ''oai:fraser.stlouisfed.org:title:176'')) (ext fresh_world))))"
    by (simp add: fraser_client_def fresh_world_def mock_get_176)
  have empty: "calls fresh_world = []"
    by (simp add: fresh_world_def)
  from same empty
    repeated_call_not_cached [of mock_sickle
      "Call_get_record ''oai:fraser.stlouisfed.org:title:176''" fraser_client fresh_world]
  show ?thesis by simp
qed


section \<open>Defaults and construction\<close>

text \<open>
  C9. In \<open>list_records\<close> and \<open>list_identifiers\<close> an argument the caller leaves out is
  forwarded as its default: with \<open>set\<close> left out the collaborator receives the keyword
  \<open>set\<close> bound to \<open>None\<close>, with \<open>ignore_deleted\<close> left out it receives
  \<open>ignore_deleted\<close> bound to \<open>False\<close>; and whatever the caller passes, the forwarded call
  has the three keywords \<open>metadataPrefix\<close>, \<open>ignore_deleted\<close>, \<open>set\<close>.
\<close>

theorem omitted_arguments_forwarded_as_defaults:
  "map_of (req_kwargs (last (calls (snd (snd
       (invoke serve self (Call_list_records ig None) w)))))) ''set'' = Some PyNone
   \<and> map_of (req_kwargs (last (calls (snd (snd
       (invoke serve self (Call_list_records None st) w)))))) ''ignore_deleted''
       = Some (PyBool False)
   \<and> map_of (req_kwargs (last (calls (snd (snd
       (invoke serve self (Call_list_identifiers ig None) w)))))) ''set'' = Some PyNone
   \<and> map_of (req_kwargs (last (calls (snd (snd
       (invoke serve self (Call_list_identifiers None st) w)))))) ''ignore_deleted''
       = Some (PyBool False)
   \<and> map fst (req_kwargs (last (calls (snd (snd
       (invoke serve self (Call_list_records ig st) w))))))
       = [''metadataPrefix'', ''ignore_deleted'', ''set'']
   \<and> map fst (req_kwargs (last (calls (snd (snd
       (invoke serve self (Call_list_identifiers ig st) w))))))
       = [''metadataPrefix'', ''ignore_deleted'', ''set'']"
  by (simp add: list_records_def list_identifiers_def Sickle_verb_unfold default_arg_def
        py_optional_str_def)

text \<open>
  C10. \<open>__init__\<close> returns: in every world it yields an instance, never an exception; the
  instance consists of the handle for \<open>https://fraser.stlouisfed.org/oai\<close>; and the world,
  the calls received by the collaborator included, is as before. (The \<open>NoReturn\<close>
  annotation changes nothing of this.)
\<close>

theorem construction_returns:
  "FRASER_init w = (Inr \<lparr>sickle = \<lparr>endpoint = ''https://fraser.stlouisfed.org/oai''\<rparr>\<rparr>, w)"
  by (simp add: FRASER_init_def Sickle_init_def)

end
